theory Spec2Isabelle
  imports Main
begin

section \<open>Post-execution views of a pipeline run\<close>

text \<open>
  A shallow embedding of \<^verbatim>\<open>zenml/post_execution/step.py\<close> (class \<^verbatim>\<open>PEStep\<close>) and
  \<^verbatim>\<open>zenml/post_execution/artifact.py\<close> (class \<^verbatim>\<open>PEArtifact\<close>).

  Python exceptions are values of \<open>py_error\<close>; an operation that can raise returns
  \<open>py_error + 'a\<close>. A method that mutates \<^verbatim>\<open>self\<close> takes the step and returns the
  step it leaves behind, also when it raises: Python does not roll back the fields
  assigned before an exception.
\<close>

subsection \<open>Records of the metadata store\<close>

text \<open>
  The protobuf messages the step reads. Only the fields the code touches are kept.
  \<^verbatim>\<open>last_known_state\<close> is an optional enum field: read when unset it yields the
  enum's default, code 0. An element of \<^verbatim>\<open>path.steps\<close> is a oneof of an index and a
  key; \<^verbatim>\<open>.key\<close> of a step holding an index reads as the empty string.
\<close>

record execution_proto =
  execution_id :: int
  last_known_state_field :: "int option"

definition last_known_state :: "execution_proto \<Rightarrow> int" where
  "last_known_state p = (case last_known_state_field p of None \<Rightarrow> 0 | Some c \<Rightarrow> c)"

text \<open>
  The enum constants \<^verbatim>\<open>proto.COMPLETE\<close>, \<^verbatim>\<open>proto.CACHED\<close>, \<^verbatim>\<open>proto.RUNNING\<close>,
  \<^verbatim>\<open>event_proto.INPUT\<close> and \<^verbatim>\<open>event_proto.OUTPUT\<close> come from ML Metadata's
  generated protobuf module, outside the two modules modelled here; the numbers are
  those of its \<^verbatim>\<open>Execution.State\<close> and \<^verbatim>\<open>Event.Type\<close> enums.
\<close>

definition RUNNING :: int where "RUNNING = 2"
definition COMPLETE :: int where "COMPLETE = 3"
definition CACHED :: int where "CACHED = 5"

definition INPUT :: int where "INPUT = 3"
definition OUTPUT :: int where "OUTPUT = 4"

record artifact_type_proto =
  type_proto_id :: int
  type_proto_name :: string

datatype path_step = Index int | Key string

fun key :: "path_step \<Rightarrow> string" where
  "key (Key k) = k"
| "key (Index i) = []"

record event_proto =
  artifact_id :: int
  event_execution_id :: int
  path_steps :: "path_step list"
  event_type :: int

datatype mlmd_value = IntValue int | StringValue string

fun string_value :: "mlmd_value \<Rightarrow> string" where
  "string_value (StringValue s) = s"
| "string_value (IntValue i) = []"

record artifact_proto =
  artifact_proto_id :: int
  type_id :: int
  artifact_proto_uri :: string
  properties :: "(string \<times> mlmd_value) list"

text \<open>
  \<^verbatim>\<open>artifact_proto.properties[key]\<close>: \<^verbatim>\<open>properties\<close> is a protobuf map field with
  message values. Indexing it with a key that is not set does not raise: it yields a
  default \<^verbatim>\<open>Value\<close> message, whose \<^verbatim>\<open>string_value\<close> is the empty string.
\<close>

definition properties_getitem :: "artifact_proto \<Rightarrow> string \<Rightarrow> mlmd_value" where
  "properties_getitem a k =
     (case map_of (properties a) k of None \<Rightarrow> StringValue [] | Some v \<Rightarrow> v)"

text \<open>
  \<^verbatim>\<open>MATERIALIZERS_PROPERTY_KEY\<close> is imported from \<^verbatim>\<open>zenml.artifacts.base_artifact\<close>,
  outside the two modules modelled here. No general result below depends on its value.
\<close>

definition MATERIALIZERS_PROPERTY_KEY :: string where
  "MATERIALIZERS_PROPERTY_KEY = ''materializers''"

subsection \<open>The store's query interface\<close>

text \<open>
  \<^verbatim>\<open>self._metadata_store.store\<close> is an external collaborator. It is a parameter of
  the model: four query functions which may answer anything. A query is taken to
  answer; the store is never written to, so the same query gets the same answer.
\<close>

record metadata_store =
  get_executions_by_id :: "int list \<Rightarrow> execution_proto list"
  get_artifact_types :: "artifact_type_proto list"
  get_events_by_execution_ids :: "int list \<Rightarrow> event_proto list"
  get_artifacts_by_id :: "int list \<Rightarrow> artifact_proto list"

datatype store_call =
    GetExecutionsById "int list"
  | GetArtifactTypes
  | GetEventsByExecutionIds "int list"
  | GetArtifactsById "int list"

subsection \<open>Errors\<close>

datatype py_error =
    IndexError
  | KeyError_type_id int
  | KeyError_input string "string list"
  | KeyError_output string "string list"
  | LookupError string

text \<open>
  \<open>KeyError_type_id i\<close> is the \<^verbatim>\<open>KeyError\<close> of \<^verbatim>\<open>artifact_type_mapping[i]\<close>.
  \<open>KeyError_input name names\<close> is the \<^verbatim>\<open>KeyError\<close> that \<^verbatim>\<open>get_input\<close> raises: its
  message interpolates the requested \<^verbatim>\<open>name\<close> and the list \<^verbatim>\<open>self.get_input_names()\<close>;
  \<open>KeyError_output\<close> likewise for \<^verbatim>\<open>get_output\<close>.
\<close>

subsection \<open>Ordered dictionaries\<close>

text \<open>
  An \<^verbatim>\<open>OrderedDict\<close> is an association list with distinct keys, in insertion order.
  Assigning to a key that is present replaces its value and keeps its position;
  assigning to a new key appends it.
\<close>

fun setitem :: "'k \<Rightarrow> 'v \<Rightarrow> ('k \<times> 'v) list \<Rightarrow> ('k \<times> 'v) list" where
  "setitem k v [] = [(k, v)]"
| "setitem k v ((k', v') # d) =
     (if k = k' then (k, v) # d else (k', v') # setitem k v d)"

subsection \<open>PEArtifact\<close>

record pe_artifact =
  pe_id :: int
  pe_type :: string
  uri :: string
  materializer :: string

definition PEArtifact :: "int \<Rightarrow> string \<Rightarrow> string \<Rightarrow> string \<Rightarrow> pe_artifact" where
  "PEArtifact i t u m = \<lparr>pe_id = i, pe_type = t, uri = u, materializer = m\<rparr>"

subsection \<open>PEStep\<close>

datatype ExecutionStatus = Failed | Completed | Running

text \<open>
  The fields of \<^verbatim>\<open>PEStep\<close>. \<open>store_calls\<close> is not a field of the class: it records,
  in order, the queries this step has sent to the store.
\<close>

record pe_step =
  step_id :: int
  step_name :: string
  parameters :: "(string \<times> string) list"
  store :: metadata_store
  step_inputs :: "(string \<times> pe_artifact) list"
  step_outputs :: "(string \<times> pe_artifact) list"
  store_calls :: "store_call list"

definition PEStep ::
  "int \<Rightarrow> string \<Rightarrow> (string \<times> string) list \<Rightarrow> metadata_store \<Rightarrow> pe_step" where
  "PEStep i n ps ms =
     \<lparr>step_id = i, step_name = n, parameters = ps, store = ms,
      step_inputs = [], step_outputs = [], store_calls = []\<rparr>"

definition called :: "store_call \<Rightarrow> pe_step \<Rightarrow> pe_step" where
  "called c s = s\<lparr>store_calls := store_calls s @ [c]\<rparr>"

definition status :: "pe_step \<Rightarrow> pe_step \<times> (py_error + ExecutionStatus)" where
  "status s =
     (let s' = called (GetExecutionsById [step_id s]) s in
      case get_executions_by_id (store s) [step_id s] of
        [] \<Rightarrow> (s', Inl IndexError)
      | proto # _ \<Rightarrow>
          (let state = last_known_state proto in
           if state = COMPLETE \<or> state = CACHED then (s', Inr Completed)
           else if state = RUNNING then (s', Inr Running)
           else (s', Inr Failed)))"

text \<open>The dictionary comprehension that maps artifact type ids to type names.\<close>

definition artifact_type_mapping :: "artifact_type_proto list \<Rightarrow> (int \<times> string) list" where
  "artifact_type_mapping ts =
     fold (\<lambda>t d. setitem (type_proto_id t) (type_proto_name t) d) ts []"

text \<open>
  The body of the loop over \<^verbatim>\<open>zip(events, artifacts)\<close> for one pair, and the loop:
  an exception in the body ends the loop and leaves the step as it is by then.
\<close>

definition join_pair ::
  "(int \<times> string) list \<Rightarrow> event_proto \<times> artifact_proto \<Rightarrow> pe_step
     \<Rightarrow> pe_step \<times> (py_error + unit)" where
  "join_pair tm p s =
     (case p of (event, artifact) \<Rightarrow>
        (case map_of tm (type_id artifact) of
           None \<Rightarrow> (s, Inl (KeyError_type_id (type_id artifact)))
         | Some artifact_type \<Rightarrow>
             (case path_steps event of
                [] \<Rightarrow> (s, Inl IndexError)
              | step0 # _ \<Rightarrow>
                  (let artifact_name = key step0;
                       m = string_value
                             (properties_getitem artifact MATERIALIZERS_PROPERTY_KEY);
                       a = PEArtifact (artifact_id event) artifact_type
                             (artifact_proto_uri artifact) m
                   in if event_type event = INPUT
                      then (s\<lparr>step_inputs := setitem artifact_name a (step_inputs s)\<rparr>,
                            Inr ())
                      else if event_type event = OUTPUT
                      then (s\<lparr>step_outputs := setitem artifact_name a (step_outputs s)\<rparr>,
                            Inr ())
                      else (s, Inr ())))))"

fun join_loop ::
  "(int \<times> string) list \<Rightarrow> (event_proto \<times> artifact_proto) list \<Rightarrow> pe_step
     \<Rightarrow> pe_step \<times> (py_error + unit)" where
  "join_loop tm [] s = (s, Inr ())"
| "join_loop tm (p # rest) s =
     (case join_pair tm p s of
        (s', Inl e) \<Rightarrow> (s', Inl e)
      | (s', Inr _) \<Rightarrow> join_loop tm rest s')"

definition ensure_inputs_outputs_fetched :: "pe_step \<Rightarrow> pe_step \<times> (py_error + unit)" where
  "ensure_inputs_outputs_fetched s =
     (if step_inputs s \<noteq> [] \<or> step_outputs s \<noteq> [] then (s, Inr ())
      else
        (let tm = artifact_type_mapping (get_artifact_types (store s));
             s1 = called GetArtifactTypes s;
             events = get_events_by_execution_ids (store s) [step_id s];
             s2 = called (GetEventsByExecutionIds [step_id s]) s1;
             ids = map artifact_id events;
             artifacts = get_artifacts_by_id (store s) ids;
             s3 = called (GetArtifactsById ids) s2
         in join_loop tm (zip events artifacts) s3))"

definition inputs :: "pe_step \<Rightarrow> pe_step \<times> (py_error + pe_artifact list)" where
  "inputs s =
     (case ensure_inputs_outputs_fetched s of
        (s', Inl e) \<Rightarrow> (s', Inl e)
      | (s', Inr _) \<Rightarrow> (s', Inr (map snd (step_inputs s'))))"

definition get_input_names :: "pe_step \<Rightarrow> pe_step \<times> (py_error + string list)" where
  "get_input_names s =
     (case ensure_inputs_outputs_fetched s of
        (s', Inl e) \<Rightarrow> (s', Inl e)
      | (s', Inr _) \<Rightarrow> (s', Inr (map fst (step_inputs s'))))"

definition get_input :: "string \<Rightarrow> pe_step \<Rightarrow> pe_step \<times> (py_error + pe_artifact)" where
  "get_input name s =
     (case ensure_inputs_outputs_fetched s of
        (s', Inl e) \<Rightarrow> (s', Inl e)
      | (s', Inr _) \<Rightarrow>
          (case map_of (step_inputs s') name of
             Some a \<Rightarrow> (s', Inr a)
           | None \<Rightarrow>
               (case get_input_names s' of
                  (s'', Inl e) \<Rightarrow> (s'', Inl e)
                | (s'', Inr names) \<Rightarrow> (s'', Inl (KeyError_input name names)))))"

definition outputs :: "pe_step \<Rightarrow> pe_step \<times> (py_error + pe_artifact list)" where
  "outputs s =
     (case ensure_inputs_outputs_fetched s of
        (s', Inl e) \<Rightarrow> (s', Inl e)
      | (s', Inr _) \<Rightarrow> (s', Inr (map snd (step_outputs s'))))"

definition get_output_names :: "pe_step \<Rightarrow> pe_step \<times> (py_error + string list)" where
  "get_output_names s =
     (case ensure_inputs_outputs_fetched s of
        (s', Inl e) \<Rightarrow> (s', Inl e)
      | (s', Inr _) \<Rightarrow> (s', Inr (map fst (step_outputs s'))))"

definition get_output :: "string \<Rightarrow> pe_step \<Rightarrow> pe_step \<times> (py_error + pe_artifact)" where
  "get_output name s =
     (case ensure_inputs_outputs_fetched s of
        (s', Inl e) \<Rightarrow> (s', Inl e)
      | (s', Inr _) \<Rightarrow>
          (case map_of (step_outputs s') name of
             Some a \<Rightarrow> (s', Inr a)
           | None \<Rightarrow>
               (case get_output_names s' of
                  (s'', Inl e) \<Rightarrow> (s'', Inl e)
                | (s'', Inr names) \<Rightarrow> (s'', Inl (KeyError_output name names)))))"

subsection \<open>PEArtifact.read\<close>

text \<open>
  A materializer class is what \<^verbatim>\<open>materializer_class(self).handle_input()\<close> makes of
  it: a function from the artifact it is constructed with to the decoded payload, or
  to the error that constructing or reading raises.
  \<^verbatim>\<open>source_utils.load_source_path_class\<close> lies outside the two modules modelled here
  and is a parameter: it maps the stored materializer path to a class, or raises. \<open>read\<close> also returns
  the paths it has asked \<^verbatim>\<open>load_source_path_class\<close> for, in order.
\<close>

type_synonym 'p materializer_class = "pe_artifact \<Rightarrow> py_error + 'p"

definition read ::
  "(string \<Rightarrow> py_error + 'p materializer_class) \<Rightarrow> pe_artifact
     \<Rightarrow> 'p materializer_class option \<Rightarrow> string list \<times> (py_error + 'p)" where
  "read load_source_path_class self materializer_class =
     (case materializer_class of
        Some c \<Rightarrow> ([], c self)
      | None \<Rightarrow>
          (case load_source_path_class (materializer self) of
             Inl e \<Rightarrow> ([materializer self], Inl e)
           | Inr c \<Rightarrow> ([materializer self], c self)))"

subsection \<open>Access sequences and query counts\<close>

text \<open>
  The six accessors that populate the step lazily, as data, so that a sequence of
  accesses can be run. A caller that catches an exception keeps the step as the
  raising call left it.
\<close>

datatype access =
    AccInputs
  | AccOutputs
  | AccGetInputNames
  | AccGetOutputNames
  | AccGetInput string
  | AccGetOutput string

fun perform :: "access \<Rightarrow> pe_step \<Rightarrow> pe_step" where
  "perform AccInputs s = fst (inputs s)"
| "perform AccOutputs s = fst (outputs s)"
| "perform AccGetInputNames s = fst (get_input_names s)"
| "perform AccGetOutputNames s = fst (get_output_names s)"
| "perform (AccGetInput n) s = fst (get_input n s)"
| "perform (AccGetOutput n) s = fst (get_output n s)"

definition perform_all :: "access list \<Rightarrow> pe_step \<Rightarrow> pe_step" where
  "perform_all accs s = fold perform accs s"

fun is_event_fetch :: "store_call \<Rightarrow> bool" where
  "is_event_fetch (GetEventsByExecutionIds ids) = True"
| "is_event_fetch c = False"

definition event_fetches :: "pe_step \<Rightarrow> nat" where
  "event_fetches s = length (filter is_event_fetch (store_calls s))"

subsection \<open>A store backed by tables\<close>

text \<open>
  A store for concrete scenarios: it holds four tables and answers a query by id with
  the matching records in the order of the ids asked for, and a query for events with
  the events of the executions asked for, in the order they were recorded.
\<close>

definition table_store ::
  "execution_proto list \<Rightarrow> artifact_type_proto list \<Rightarrow> event_proto list
     \<Rightarrow> artifact_proto list \<Rightarrow> metadata_store" where
  "table_store execs types events arts =
     \<lparr>get_executions_by_id =
        (\<lambda>ids. concat (map (\<lambda>i. filter (\<lambda>e. execution_id e = i) execs) ids)),
      get_artifact_types = types,
      get_events_by_execution_ids =
        (\<lambda>ids. filter (\<lambda>ev. event_execution_id ev \<in> set ids) events),
      get_artifacts_by_id =
        (\<lambda>ids. concat (map (\<lambda>i. filter (\<lambda>a. artifact_proto_id a = i) arts) ids))\<rparr>"

definition mk_event :: "int \<Rightarrow> int \<Rightarrow> string \<Rightarrow> int \<Rightarrow> event_proto" where
  "mk_event ex ty nm art =
     \<lparr>artifact_id = art, event_execution_id = ex, path_steps = [Key nm], event_type = ty\<rparr>"

definition mk_artifact ::
  "int \<Rightarrow> int \<Rightarrow> string \<Rightarrow> (string \<times> mlmd_value) list \<Rightarrow> artifact_proto" where
  "mk_artifact i t u props =
     \<lparr>artifact_proto_id = i, type_id = t, artifact_proto_uri = u, properties = props\<rparr>"

text \<open>
  The round-trip scenario: execution 1 in state COMPLETE, an INPUT event
  \<open>data\<close> for artifact 10 and an OUTPUT event \<open>model\<close> for artifact 20, artifact 10 of
  type 1 at \<open>/a/10\<close>, artifact 20 of type 2 at \<open>/a/20\<close>, and the types 1 \<open>Dataset\<close>
  and 2 \<open>Model\<close>. The property bags of the two artifacts are left open.
\<close>

definition scenario_store ::
  "(string \<times> mlmd_value) list \<Rightarrow> (string \<times> mlmd_value) list \<Rightarrow> metadata_store" where
  "scenario_store props10 props20 =
     table_store
       [\<lparr>execution_id = 1, last_known_state_field = Some COMPLETE\<rparr>]
       [\<lparr>type_proto_id = 1, type_proto_name = ''Dataset''\<rparr>,
        \<lparr>type_proto_id = 2, type_proto_name = ''Model''\<rparr>]
       [mk_event 1 INPUT ''data'' 10, mk_event 1 OUTPUT ''model'' 20]
       [mk_artifact 10 1 ''/a/10'' props10, mk_artifact 20 2 ''/a/20'' props20]"

definition scenario_step ::
  "(string \<times> mlmd_value) list \<Rightarrow> (string \<times> mlmd_value) list \<Rightarrow> pe_step" where
  "scenario_step props10 props20 =
     PEStep 1 ''trainer'' [] (scenario_store props10 props20)"

subsection \<open>Notions for stating the properties of the join\<close>

text \<open>
  What the join reads from the store for a step: the type names by id, and the events
  paired by position with the artifacts fetched for them. \<open>queried s\<close> is the step
  after the three queries of a join have been sent.
\<close>

definition type_names :: "pe_step \<Rightarrow> (int \<times> string) list" where
  "type_names s = artifact_type_mapping (get_artifact_types (store s))"

definition fetched_events :: "pe_step \<Rightarrow> event_proto list" where
  "fetched_events s = get_events_by_execution_ids (store s) [step_id s]"

definition fetched_artifacts :: "pe_step \<Rightarrow> artifact_proto list" where
  "fetched_artifacts s = get_artifacts_by_id (store s) (map artifact_id (fetched_events s))"

definition queried :: "pe_step \<Rightarrow> pe_step" where
  "queried s =
     s\<lparr>store_calls := store_calls s @
          [GetArtifactTypes, GetEventsByExecutionIds [step_id s],
           GetArtifactsById (map artifact_id (fetched_events s))]\<rparr>"

text \<open>
  A pair of records resolves when the artifact's type id is in the type dictionary
  and the event's path has a first step.
\<close>

definition resolves :: "(int \<times> string) list \<Rightarrow> event_proto \<times> artifact_proto \<Rightarrow> bool" where
  "resolves tm p = (map_of tm (type_id (snd p)) \<noteq> None \<and> path_steps (fst p) \<noteq> [])"

text \<open>
  The entry a resolving pair stands for: the parameter name of the event and the
  artifact view built from the pair. \<open>entries dir tm ps\<close> lists the entries of the
  pairs of \<open>ps\<close> whose event has the type \<open>dir\<close>, in the order of \<open>ps\<close>.
\<close>

definition artifact_name :: "event_proto \<Rightarrow> string" where
  "artifact_name e = (case path_steps e of [] \<Rightarrow> [] | step0 # _ \<Rightarrow> key step0)"

definition artifact_view :: "(int \<times> string) list \<Rightarrow> event_proto \<times> artifact_proto \<Rightarrow> pe_artifact" where
  "artifact_view tm p =
     PEArtifact (artifact_id (fst p))
       (case map_of tm (type_id (snd p)) of None \<Rightarrow> [] | Some t \<Rightarrow> t)
       (artifact_proto_uri (snd p))
       (string_value (properties_getitem (snd p) MATERIALIZERS_PROPERTY_KEY))"

definition entries ::
  "int \<Rightarrow> (int \<times> string) list \<Rightarrow> (event_proto \<times> artifact_proto) list
     \<Rightarrow> (string \<times> pe_artifact) list" where
  "entries dir tm ps =
     map (\<lambda>p. (artifact_name (fst p), artifact_view tm p))
       (filter (\<lambda>p. event_type (fst p) = dir) ps)"

text \<open>Assigning a list of entries to a dictionary, one after the other.\<close>

definition setitems :: "('k \<times> 'v) list \<Rightarrow> ('k \<times> 'v) list \<Rightarrow> ('k \<times> 'v) list" where
  "setitems xs d = fold (\<lambda>kv acc. setitem (fst kv) (snd kv) acc) xs d"

text \<open>The elements of a list in the order of their first occurrence.\<close>

definition first_occurrences :: "'a list \<Rightarrow> 'a list" where
  "first_occurrences xs = fold (\<lambda>x acc. if x \<in> set acc then acc else acc @ [x]) xs []"

definition empty_store :: metadata_store where
  "empty_store = table_store [] [] [] []"

text \<open>
  A registry for concrete scenarios: it knows one path, \<open>pkg.UriMaterializer\<close>, whose
  class reads an artifact as its URI.
\<close>

definition uri_materializer :: "string materializer_class" where
  "uri_materializer a = Inr (uri a)"

definition one_class_registry :: "string \<Rightarrow> py_error + string materializer_class" where
  "one_class_registry path =
     (if path = ''pkg.UriMaterializer'' then Inr uri_materializer
      else Inl (LookupError path))"

text \<open>A step whose execution has recorded no event.\<close>

definition no_events_step :: pe_step where
  "no_events_step = PEStep 1 ''importer'' [] empty_store"

text \<open>
  Three inputs recorded in the order \<open>b\<close>, \<open>a\<close>, \<open>b\<close>: the name \<open>b\<close> occurs twice,
  first for artifact 2 and then for artifact 3.
\<close>

definition repeated_name_step :: pe_step where
  "repeated_name_step =
     PEStep 1 ''trainer'' []
       (table_store
          [\<lparr>execution_id = 1, last_known_state_field = Some COMPLETE\<rparr>]
          [\<lparr>type_proto_id = 1, type_proto_name = ''Dataset''\<rparr>]
          [mk_event 1 INPUT ''b'' 2, mk_event 1 INPUT ''a'' 1, mk_event 1 INPUT ''b'' 3]
          [mk_artifact 1 1 ''/a/1'' [], mk_artifact 2 1 ''/a/2'' [],
           mk_artifact 3 1 ''/a/3'' []])"

text \<open>
  A step function declared as \<^verbatim>\<open>def trainer(a, b)\<close> whose execution recorded the
  input event of \<open>b\<close> before that of \<open>a\<close>.
\<close>

definition swapped_step :: pe_step where
  "swapped_step =
     PEStep 1 ''trainer'' []
       (table_store
          [\<lparr>execution_id = 1, last_known_state_field = Some COMPLETE\<rparr>]
          [\<lparr>type_proto_id = 1, type_proto_name = ''Dataset''\<rparr>]
          [mk_event 1 INPUT ''b'' 20, mk_event 1 INPUT ''a'' 10]
          [mk_artifact 10 1 ''/a/10'' [], mk_artifact 20 1 ''/a/20'' []])"

text \<open>
  Two inputs \<open>a\<close> and \<open>b\<close>; the artifact of \<open>b\<close> has the type id 9, which the type
  dictionary does not hold.
\<close>

definition unknown_type_step :: pe_step where
  "unknown_type_step =
     PEStep 1 ''trainer'' []
       (table_store
          [\<lparr>execution_id = 1, last_known_state_field = Some COMPLETE\<rparr>]
          [\<lparr>type_proto_id = 1, type_proto_name = ''Dataset''\<rparr>]
          [mk_event 1 INPUT ''a'' 10, mk_event 1 INPUT ''b'' 20]
          [mk_artifact 10 1 ''/a/10'' [], mk_artifact 20 9 ''/a/20'' []])"

text \<open>
  Two inputs \<open>a\<close> and \<open>b\<close> for the artifacts 10 and 20, in a store that holds no
  record of artifact 20: it answers the query for \<open>[10, 20]\<close> with one artifact.
\<close>

definition missing_artifact_step :: pe_step where
  "missing_artifact_step =
     PEStep 1 ''trainer'' []
       (table_store
          [\<lparr>execution_id = 1, last_known_state_field = Some COMPLETE\<rparr>]
          [\<lparr>type_proto_id = 1, type_proto_name = ''Dataset''\<rparr>]
          [mk_event 1 INPUT ''a'' 10, mk_event 1 INPUT ''b'' 20]
          [mk_artifact 10 1 ''/a/10'' []])"

text \<open>
  One input \<open>a\<close> for artifact 10, in a store that holds two records with the id 10:
  it answers the query for \<open>[10]\<close> with two artifacts.
\<close>

definition extra_artifact_step :: pe_step where
  "extra_artifact_step =
     PEStep 1 ''trainer'' []
       (table_store
          [\<lparr>execution_id = 1, last_known_state_field = Some COMPLETE\<rparr>]
          [\<lparr>type_proto_id = 1, type_proto_name = ''Dataset''\<rparr>]
          [mk_event 1 INPUT ''a'' 10]
          [mk_artifact 10 1 ''/a/10'' [], mk_artifact 10 9 ''/a/10-copy'' []])"

section \<open>Properties\<close>

subsection \<open>Ordered dictionaries\<close>

lemma setitem_not_Nil: "setitem k v d \<noteq> []"
  by (cases d) (auto split: if_splits)

lemma map_of_setitem: "map_of (setitem k v d) = (map_of d)(k \<mapsto> v)"
  by (induction d) (auto simp: fun_eq_iff)

lemma keys_setitem:
  "map fst (setitem k v d) = (if k \<in> set (map fst d) then map fst d else map fst d @ [k])"
  by (induction d) (auto split: if_splits)

subsection \<open>The join loop\<close>

lemma join_pair_fields:
  "step_id (fst (join_pair tm p s)) = step_id s \<and>
   store (fst (join_pair tm p s)) = store s \<and>
   store_calls (fst (join_pair tm p s)) = store_calls s"
  by (auto simp: join_pair_def Let_def split: prod.splits option.splits list.splits)

lemma join_loop_fields:
  "step_id (fst (join_loop tm ps s)) = step_id s \<and>
   store (fst (join_loop tm ps s)) = store s \<and>
   store_calls (fst (join_loop tm ps s)) = store_calls s"
proof (induction ps arbitrary: s)
  case Nil
  show ?case by simp
next
  case (Cons p ps)
  obtain s' r where jp: "join_pair tm p s = (s', r)" by (cases "join_pair tm p s")
  with join_pair_fields[of tm p s] have f: "step_id s' = step_id s" "store s' = store s"
    "store_calls s' = store_calls s" by simp_all
  show ?case using jp f Cons.IH[of s'] by (cases r) simp_all
qed

lemma join_loop_append:
  "join_loop tm (ps @ qs) s =
     (case join_loop tm ps s of
        (s', Inl e) \<Rightarrow> (s', Inl e)
      | (s', Inr u) \<Rightarrow> join_loop tm qs s')"
  by (induction ps arbitrary: s) (auto split: prod.splits sum.splits)

lemma join_pair_cong:
  "step_inputs s = step_inputs t \<Longrightarrow> step_outputs s = step_outputs t \<Longrightarrow>
   step_inputs (fst (join_pair tm p s)) = step_inputs (fst (join_pair tm p t)) \<and>
   step_outputs (fst (join_pair tm p s)) = step_outputs (fst (join_pair tm p t)) \<and>
   snd (join_pair tm p s) = snd (join_pair tm p t)"
  by (auto simp: join_pair_def Let_def split: prod.splits option.splits list.splits)

lemma join_loop_cong:
  "step_inputs s = step_inputs t \<Longrightarrow> step_outputs s = step_outputs t \<Longrightarrow>
   step_inputs (fst (join_loop tm ps s)) = step_inputs (fst (join_loop tm ps t)) \<and>
   step_outputs (fst (join_loop tm ps s)) = step_outputs (fst (join_loop tm ps t)) \<and>
   snd (join_loop tm ps s) = snd (join_loop tm ps t)"
proof (induction ps arbitrary: s t)
  case Nil
  then show ?case by simp
next
  case (Cons p ps)
  obtain s' r where js: "join_pair tm p s = (s', r)" by (cases "join_pair tm p s")
  obtain t' q where jt: "join_pair tm p t = (t', q)" by (cases "join_pair tm p t")
  from join_pair_cong[OF Cons.prems, of tm p] js jt
  have e: "step_inputs s' = step_inputs t'" "step_outputs s' = step_outputs t'" "r = q"
    by simp_all
  show ?case using js jt e Cons.IH[OF e(1) e(2)] by (cases q) auto
qed

subsection \<open>Execution status\<close>

lemma scenario_executions:
  "get_executions_by_id (store (scenario_step p10 p20)) [step_id (scenario_step p10 p20)] =
     [\<lparr>execution_id = 1, last_known_state_field = Some COMPLETE\<rparr>]"
  by (simp add: scenario_step_def scenario_store_def table_store_def PEStep_def)

text \<open>
  Claim C2. When the store returns an execution record for the step, \<open>status\<close> does
  not raise and returns one of Completed, Running and Failed: Completed exactly for
  the state codes COMPLETE and CACHED, Running exactly for RUNNING, Failed for every
  other code, and Failed when the state field is not set. Nothing is cached: every
  access sends the query \<open>get_executions_by_id\<close> to the store, and leaves the rest
  of the step as it was.
\<close>

theorem status_maps_state:
  assumes "get_executions_by_id (store s) [step_id s] = p # ps"
  shows "(snd (status s) = Inr Completed \<longleftrightarrow>
            last_known_state p = COMPLETE \<or> last_known_state p = CACHED) \<and>
         (snd (status s) = Inr Running \<longleftrightarrow> last_known_state p = RUNNING) \<and>
         (snd (status s) = Inr Failed \<longleftrightarrow>
            last_known_state p \<notin> {COMPLETE, CACHED, RUNNING}) \<and>
         (last_known_state_field p = None \<longrightarrow> snd (status s) = Inr Failed) \<and>
         snd (status s) \<in> {Inr Completed, Inr Running, Inr Failed} \<and>
         fst (status s) = called (GetExecutionsById [step_id s]) s \<and>
         snd (status (fst (status s))) = snd (status s)"
  using assms
  by (auto simp: status_def Let_def called_def last_known_state_def
        COMPLETE_def CACHED_def RUNNING_def)

theorem status_maps_state_witness:
  "snd (status (scenario_step [] [])) = Inr Completed \<and>
   snd (status (scenario_step [] [])) \<noteq> Inr Failed \<and>
   store_calls (fst (status (scenario_step [] []))) = [GetExecutionsById [1]]"
  using status_maps_state[OF scenario_executions, of "[]" "[]"]
  by (simp add: last_known_state_def called_def scenario_step_def PEStep_def)

text \<open>
  Claim C10. \<open>status\<close> indexes the answer of \<open>get_executions_by_id\<close> at 0: when the
  store returns no execution record for the step's id, \<open>status\<close> raises IndexError;
  it does not return Failed.
\<close>

theorem status_no_execution:
  assumes "get_executions_by_id (store s) [step_id s] = []"
  shows "snd (status s) = Inl IndexError \<and> snd (status s) \<noteq> Inr Failed"
  using assms by (simp add: status_def Let_def)

theorem status_no_execution_witness:
  "snd (status (PEStep 7 ''s'' [] empty_store)) = Inl IndexError \<and>
   snd (status (PEStep 7 ''s'' [] empty_store)) \<noteq> Inr Failed"
proof -
  have "get_executions_by_id (store (PEStep 7 ''s'' [] empty_store))
          [step_id (PEStep 7 ''s'' [] empty_store)] = []"
    by (simp add: PEStep_def empty_store_def table_store_def)
  from status_no_execution[OF this] show ?thesis .
qed

subsection \<open>Reading an artifact\<close>

text \<open>
  Claim C5. \<open>read\<close> with a materializer class given uses that class and does not ask
  \<open>load_source_path_class\<close> for anything. With none given it asks for the stored
  materializer path, once; if that raises, \<open>read\<close> raises the same error and runs no
  materializer; if it yields a class, \<open>read\<close> constructs it with the artifact and
  returns what its \<open>handle_input\<close> returns.
\<close>

theorem read_resolves_materializer:
  "read load a (Some c) = ([], c a) \<and>
   (load (materializer a) = Inl e \<longrightarrow> read load a None = ([materializer a], Inl e)) \<and>
   (load (materializer a) = Inr c \<longrightarrow> read load a None = ([materializer a], c a))"
  by (simp add: read_def)

theorem read_resolves_materializer_witness:
  "read one_class_registry (PEArtifact 10 ''Dataset'' ''/a/10'' ''pkg.Missing'')
     (Some uri_materializer) = ([], Inr ''/a/10'') \<and>
   read one_class_registry (PEArtifact 10 ''Dataset'' ''/a/10'' ''pkg.Missing'') None =
     ([''pkg.Missing''], Inl (LookupError ''pkg.Missing'')) \<and>
   read one_class_registry (PEArtifact 20 ''Model'' ''/a/20'' ''pkg.UriMaterializer'') None =
     ([''pkg.UriMaterializer''], Inr ''/a/20'')"
  using
    read_resolves_materializer[of one_class_registry
      "PEArtifact 10 ''Dataset'' ''/a/10'' ''pkg.Missing''" uri_materializer
      "LookupError ''pkg.Missing''"]
    read_resolves_materializer[of one_class_registry
      "PEArtifact 20 ''Model'' ''/a/20'' ''pkg.UriMaterializer''" uri_materializer
      "LookupError ''pkg.Missing''"]
  by (simp add: one_class_registry_def PEArtifact_def uri_materializer_def)

subsection \<open>The round-trip scenario\<close>

lemma scenario_ensure:
  "ensure_inputs_outputs_fetched (scenario_step p10 p20) =
     ((scenario_step p10 p20)
        \<lparr>step_inputs := [(''data'', PEArtifact 10 ''Dataset'' ''/a/10''
            (string_value (properties_getitem (mk_artifact 10 1 ''/a/10'' p10)
               MATERIALIZERS_PROPERTY_KEY)))],
         step_outputs := [(''model'', PEArtifact 20 ''Model'' ''/a/20''
            (string_value (properties_getitem (mk_artifact 20 2 ''/a/20'' p20)
               MATERIALIZERS_PROPERTY_KEY)))],
         store_calls := [GetArtifactTypes, GetEventsByExecutionIds [1],
            GetArtifactsById [10, 20]]\<rparr>,
      Inr ())"
  by (simp add: ensure_inputs_outputs_fetched_def scenario_step_def PEStep_def
        scenario_store_def table_store_def mk_event_def mk_artifact_def called_def
        artifact_type_mapping_def INPUT_def OUTPUT_def join_pair_def Let_def)

text \<open>
  Claim C4. In the round-trip scenario, whatever the property bags of the two
  artifacts hold, the step reports the status Completed, its inputs mapping is the
  single entry \<open>data\<close> with the artifact view of id 10, type \<open>Dataset\<close> and URI
  \<open>/a/10\<close>, its outputs mapping is the single entry \<open>model\<close> with the artifact view of
  id 20, type \<open>Model\<close> and URI \<open>/a/20\<close>, and the accessors return these views and names.
  The fourth field of a view is the materializer path read from the artifact's
  property bag.
\<close>

theorem round_trip_scenario:
  "snd (status (scenario_step p10 p20)) = Inr Completed \<and>
   step_inputs (fst (inputs (scenario_step p10 p20))) =
     [(''data'', PEArtifact 10 ''Dataset'' ''/a/10''
        (string_value (properties_getitem (mk_artifact 10 1 ''/a/10'' p10)
           MATERIALIZERS_PROPERTY_KEY)))] \<and>
   step_outputs (fst (outputs (scenario_step p10 p20))) =
     [(''model'', PEArtifact 20 ''Model'' ''/a/20''
        (string_value (properties_getitem (mk_artifact 20 2 ''/a/20'' p20)
           MATERIALIZERS_PROPERTY_KEY)))] \<and>
   snd (inputs (scenario_step p10 p20)) =
     Inr [PEArtifact 10 ''Dataset'' ''/a/10''
        (string_value (properties_getitem (mk_artifact 10 1 ''/a/10'' p10)
           MATERIALIZERS_PROPERTY_KEY))] \<and>
   snd (outputs (scenario_step p10 p20)) =
     Inr [PEArtifact 20 ''Model'' ''/a/20''
        (string_value (properties_getitem (mk_artifact 20 2 ''/a/20'' p20)
           MATERIALIZERS_PROPERTY_KEY))] \<and>
   snd (get_input_names (scenario_step p10 p20)) = Inr [''data''] \<and>
   snd (get_output_names (scenario_step p10 p20)) = Inr [''model'']"
proof -
  have st: "snd (status (scenario_step p10 p20)) = Inr Completed"
    by (simp add: status_def Let_def scenario_executions last_known_state_def
          COMPLETE_def)
  show ?thesis
    by (simp add: st inputs_def outputs_def get_input_names_def get_output_names_def
          scenario_ensure)
qed

theorem round_trip_scenario_witness:
  "snd (inputs (scenario_step [(''materializers'', StringValue ''pkg.UriMaterializer'')] [])) =
     Inr [PEArtifact 10 ''Dataset'' ''/a/10'' ''pkg.UriMaterializer''] \<and>
   snd (outputs (scenario_step [(''materializers'', StringValue ''pkg.UriMaterializer'')] [])) =
     Inr [PEArtifact 20 ''Model'' ''/a/20'' []]"
  using round_trip_scenario[of "[(''materializers'', StringValue ''pkg.UriMaterializer'')]" "[]"]
  by (simp add: properties_getitem_def mk_artifact_def MATERIALIZERS_PROPERTY_KEY_def)

subsection \<open>The guard of the lazy population\<close>

lemma ensure_populated:
  "step_inputs s \<noteq> [] \<or> step_outputs s \<noteq> [] \<Longrightarrow> ensure_inputs_outputs_fetched s = (s, Inr ())"
  by (auto simp: ensure_inputs_outputs_fetched_def)

lemma ensure_fresh:
  "step_inputs s = [] \<Longrightarrow> step_outputs s = [] \<Longrightarrow>
   ensure_inputs_outputs_fetched s =
     join_loop (type_names s) (zip (fetched_events s) (fetched_artifacts s)) (queried s)"
  by (simp add: ensure_inputs_outputs_fetched_def Let_def type_names_def fetched_events_def
        fetched_artifacts_def queried_def called_def)

lemma queried_fields:
  "step_id (queried s) = step_id s" "store (queried s) = store s"
  "step_inputs (queried s) = step_inputs s" "step_outputs (queried s) = step_outputs s"
  by (simp_all add: queried_def)

lemma ensure_fields:
  "step_id (fst (ensure_inputs_outputs_fetched s)) = step_id s \<and>
   store (fst (ensure_inputs_outputs_fetched s)) = store s"
proof (cases "step_inputs s \<noteq> [] \<or> step_outputs s \<noteq> []")
  case True
  then show ?thesis by (simp add: ensure_populated)
next
  case False
  then show ?thesis by (simp add: ensure_fresh join_loop_fields queried_fields)
qed

lemma read_fields:
  "type_names (fst (ensure_inputs_outputs_fetched s)) = type_names s"
  "fetched_events (fst (ensure_inputs_outputs_fetched s)) = fetched_events s"
  "fetched_artifacts (fst (ensure_inputs_outputs_fetched s)) = fetched_artifacts s"
  by (simp_all add: type_names_def fetched_events_def fetched_artifacts_def ensure_fields)

lemma ensure_again:
  assumes "snd (ensure_inputs_outputs_fetched s) = Inr ()"
  shows "step_inputs (fst (ensure_inputs_outputs_fetched (fst (ensure_inputs_outputs_fetched s)))) =
           step_inputs (fst (ensure_inputs_outputs_fetched s)) \<and>
         step_outputs (fst (ensure_inputs_outputs_fetched (fst (ensure_inputs_outputs_fetched s)))) =
           step_outputs (fst (ensure_inputs_outputs_fetched s)) \<and>
         snd (ensure_inputs_outputs_fetched (fst (ensure_inputs_outputs_fetched s))) = Inr ()"
proof -
  let ?s' = "fst (ensure_inputs_outputs_fetched s)"
  show ?thesis
  proof (cases "step_inputs ?s' \<noteq> [] \<or> step_outputs ?s' \<noteq> []")
    case True
    then show ?thesis by (simp add: ensure_populated)
  next
    case False
    then have e': "step_inputs ?s' = []" "step_outputs ?s' = []" by simp_all
    have "\<not> (step_inputs s \<noteq> [] \<or> step_outputs s \<noteq> [])"
    proof
      assume "step_inputs s \<noteq> [] \<or> step_outputs s \<noteq> []"
      from ensure_populated[OF this] this False show False by simp
    qed
    then have e: "step_inputs s = []" "step_outputs s = []" by simp_all
    have 1: "ensure_inputs_outputs_fetched ?s' =
        join_loop (type_names s) (zip (fetched_events s) (fetched_artifacts s)) (queried ?s')"
      using ensure_fresh[OF e'] by (simp add: read_fields)
    have 2: "ensure_inputs_outputs_fetched s =
        join_loop (type_names s) (zip (fetched_events s) (fetched_artifacts s)) (queried s)"
      using ensure_fresh[OF e] .
    have "step_inputs (queried ?s') = step_inputs (queried s)"
         "step_outputs (queried ?s') = step_outputs (queried s)"
      using e e' by (simp_all add: queried_fields)
    from join_loop_cong[OF this, of "type_names s" "zip (fetched_events s) (fetched_artifacts s)"]
    show ?thesis using assms by (simp add: 1 2[symmetric])
  qed
qed


subsection \<open>Lookup by name\<close>

lemma get_input_names_after:
  assumes "ensure_inputs_outputs_fetched s = (s', Inr ())"
  shows "snd (get_input_names s') = Inr (map fst (step_inputs s')) \<and>
         step_inputs (fst (get_input_names s')) = step_inputs s' \<and>
         step_outputs (fst (get_input_names s')) = step_outputs s'"
proof -
  from assms have "snd (ensure_inputs_outputs_fetched s) = Inr ()"
    and s': "fst (ensure_inputs_outputs_fetched s) = s'" by simp_all
  from ensure_again[OF this(1)] s'
  have a: "step_inputs (fst (ensure_inputs_outputs_fetched s')) = step_inputs s'"
          "step_outputs (fst (ensure_inputs_outputs_fetched s')) = step_outputs s'"
          "snd (ensure_inputs_outputs_fetched s') = Inr ()" by simp_all
  obtain t r where t: "ensure_inputs_outputs_fetched s' = (t, r)"
    by (cases "ensure_inputs_outputs_fetched s'")
  with a show ?thesis by (simp add: get_input_names_def)
qed

lemma get_output_names_after:
  assumes "ensure_inputs_outputs_fetched s = (s', Inr ())"
  shows "snd (get_output_names s') = Inr (map fst (step_outputs s')) \<and>
         step_inputs (fst (get_output_names s')) = step_inputs s' \<and>
         step_outputs (fst (get_output_names s')) = step_outputs s'"
proof -
  from assms have "snd (ensure_inputs_outputs_fetched s) = Inr ()"
    and s': "fst (ensure_inputs_outputs_fetched s) = s'" by simp_all
  from ensure_again[OF this(1)] s'
  have a: "step_inputs (fst (ensure_inputs_outputs_fetched s')) = step_inputs s'"
          "step_outputs (fst (ensure_inputs_outputs_fetched s')) = step_outputs s'"
          "snd (ensure_inputs_outputs_fetched s') = Inr ()" by simp_all
  obtain t r where t: "ensure_inputs_outputs_fetched s' = (t, r)"
    by (cases "ensure_inputs_outputs_fetched s'")
  with a show ?thesis by (simp add: get_output_names_def)
qed

text \<open>
  Claim C6. Once the lazy population has gone through, \<open>get_input name\<close> returns the
  artifact view the inputs mapping holds for \<open>name\<close>; for a name that is not a key of
  the mapping it raises the KeyError that carries the requested name and the list of
  the keys of the inputs mapping, in the mapping's order, and leaves the mapping as
  it was. \<open>get_output\<close> does the same with the outputs mapping.
\<close>

theorem get_input_output_lookup:
  assumes "ensure_inputs_outputs_fetched s = (s', Inr ())"
  shows "(map_of (step_inputs s') name = Some a \<longrightarrow> get_input name s = (s', Inr a)) \<and>
         (name \<notin> set (map fst (step_inputs s')) \<longrightarrow>
            snd (get_input name s) = Inl (KeyError_input name (map fst (step_inputs s'))) \<and>
            step_inputs (fst (get_input name s)) = step_inputs s') \<and>
         (map_of (step_outputs s') name = Some a \<longrightarrow> get_output name s = (s', Inr a)) \<and>
         (name \<notin> set (map fst (step_outputs s')) \<longrightarrow>
            snd (get_output name s) = Inl (KeyError_output name (map fst (step_outputs s'))) \<and>
            step_outputs (fst (get_output name s)) = step_outputs s')"
proof -
  have i1: "map_of (step_inputs s') name = Some a \<Longrightarrow> get_input name s = (s', Inr a)"
    using assms by (simp add: get_input_def)
  have o1: "map_of (step_outputs s') name = Some a \<Longrightarrow> get_output name s = (s', Inr a)"
    using assms by (simp add: get_output_def)
  have i2: "snd (get_input name s) = Inl (KeyError_input name (map fst (step_inputs s'))) \<and>
            step_inputs (fst (get_input name s)) = step_inputs s'"
    if "name \<notin> set (map fst (step_inputs s'))"
  proof -
    from that have n: "map_of (step_inputs s') name = None"
      by (simp add: map_of_eq_None_iff)
    obtain t r where t: "get_input_names s' = (t, r)" by (cases "get_input_names s'")
    with get_input_names_after[OF assms]
    have "r = Inr (map fst (step_inputs s'))" "step_inputs t = step_inputs s'" by simp_all
    with assms n t show ?thesis by (simp add: get_input_def)
  qed
  have o2: "snd (get_output name s) = Inl (KeyError_output name (map fst (step_outputs s'))) \<and>
            step_outputs (fst (get_output name s)) = step_outputs s'"
    if "name \<notin> set (map fst (step_outputs s'))"
  proof -
    from that have n: "map_of (step_outputs s') name = None"
      by (simp add: map_of_eq_None_iff)
    obtain t r where t: "get_output_names s' = (t, r)" by (cases "get_output_names s'")
    with get_output_names_after[OF assms]
    have "r = Inr (map fst (step_outputs s'))" "step_outputs t = step_outputs s'" by simp_all
    with assms n t show ?thesis by (simp add: get_output_def)
  qed
  from i1 i2 o1 o2 show ?thesis by blast
qed

theorem get_input_output_lookup_witness:
  "get_input ''data'' (scenario_step [] []) =
     (fst (ensure_inputs_outputs_fetched (scenario_step [] [])),
      Inr (PEArtifact 10 ''Dataset'' ''/a/10'' [])) \<and>
   snd (get_input ''model'' (scenario_step [] [])) = Inl (KeyError_input ''model'' [''data'']) \<and>
   snd (get_output ''data'' (scenario_step [] [])) = Inl (KeyError_output ''data'' [''model''])"
  using
    get_input_output_lookup[OF scenario_ensure, of "[]" "[]" "''data''" "PEArtifact 10 ''Dataset'' ''/a/10'' []"]
    get_input_output_lookup[OF scenario_ensure, of "[]" "[]" "''model''" "PEArtifact 10 ''Dataset'' ''/a/10'' []"]
  by (simp add: scenario_ensure properties_getitem_def mk_artifact_def)

subsection \<open>Access sequences\<close>

lemma perform_populated:
  assumes "step_inputs (fst (ensure_inputs_outputs_fetched s)) \<noteq> [] \<or>
           step_outputs (fst (ensure_inputs_outputs_fetched s)) \<noteq> []"
  shows "perform a s = fst (ensure_inputs_outputs_fetched s)"
proof -
  obtain s' r where e: "ensure_inputs_outputs_fetched s = (s', r)"
    by (cases "ensure_inputs_outputs_fetched s")
  with assms have "step_inputs s' \<noteq> [] \<or> step_outputs s' \<noteq> []" by simp
  from ensure_populated[OF this] have e': "ensure_inputs_outputs_fetched s' = (s', Inr ())" .
  show ?thesis
    by (cases a; cases r)
       (simp_all add: e e' inputs_def outputs_def get_input_names_def get_output_names_def
          get_input_def get_output_def split: option.splits)
qed

lemma perform_all_populated:
  assumes "step_inputs s \<noteq> [] \<or> step_outputs s \<noteq> []"
  shows "perform_all accs s = s"
proof (induction accs)
  case Nil
  show ?case by (simp add: perform_all_def)
next
  case (Cons a accs)
  from ensure_populated[OF assms] have e: "ensure_inputs_outputs_fetched s = (s, Inr ())" .
  with assms have "perform a s = s" using perform_populated[of s a] by simp
  with Cons show ?case by (simp add: perform_all_def)
qed

lemma event_fetches_ensure_fresh:
  "step_inputs s = [] \<Longrightarrow> step_outputs s = [] \<Longrightarrow>
   event_fetches (fst (ensure_inputs_outputs_fetched s)) = event_fetches s + 1"
  by (simp add: ensure_fresh event_fetches_def join_loop_fields)
     (simp add: queried_def)

text \<open>
  Claim C1, as stated, fails: the guard looks at the mappings, not at whether a join
  has run. A step without events leaves both mappings empty, so the second access runs
  the join again and the store is asked for the events twice.
\<close>

theorem event_fetch_twice_counterexample:
  "event_fetches (perform_all [AccInputs, AccOutputs] no_events_step) = 2"
  by (simp add: perform_all_def no_events_step_def PEStep_def empty_store_def table_store_def
       inputs_def outputs_def ensure_inputs_outputs_fetched_def Let_def called_def
       artifact_type_mapping_def event_fetches_def)

text \<open>
  Claim C1, amended. For a new step whose first join leaves an entry in the inputs
  or the outputs mapping, every non-empty sequence of accesses to \<open>inputs\<close>,
  \<open>outputs\<close>, \<open>get_input_names\<close>, \<open>get_output_names\<close>, \<open>get_input\<close> and \<open>get_output\<close>
  asks the store for the events exactly once, and leaves the step as the first join
  left it. The population runs on an access exactly when both mappings are empty
  then: with an entry in either mapping it changes nothing and sends no query, with
  both empty it sends the event query once more.
\<close>

theorem lazy_population_once:
  assumes "step_inputs (fst (ensure_inputs_outputs_fetched (PEStep i n ps ms))) \<noteq> [] \<or>
           step_outputs (fst (ensure_inputs_outputs_fetched (PEStep i n ps ms))) \<noteq> []"
      and "accs \<noteq> []"
  shows "event_fetches (perform_all accs (PEStep i n ps ms)) = 1 \<and>
         perform_all accs (PEStep i n ps ms) =
           fst (ensure_inputs_outputs_fetched (PEStep i n ps ms)) \<and>
         (step_inputs s \<noteq> [] \<or> step_outputs s \<noteq> [] \<longrightarrow>
            ensure_inputs_outputs_fetched s = (s, Inr ())) \<and>
         (step_inputs s = [] \<and> step_outputs s = [] \<longrightarrow>
            event_fetches (fst (ensure_inputs_outputs_fetched s)) = event_fetches s + 1)"
proof -
  let ?s0 = "PEStep i n ps ms"
  let ?s1 = "fst (ensure_inputs_outputs_fetched ?s0)"
  obtain a rest where accs: "accs = a # rest" using assms(2) by (cases accs) auto
  have "perform a ?s0 = ?s1" using perform_populated[OF assms(1)] .
  then have run: "perform_all accs ?s0 = ?s1"
    using perform_all_populated[OF assms(1), of rest] by (simp add: accs perform_all_def)
  have fresh: "step_inputs ?s0 = []" "step_outputs ?s0 = []" "event_fetches ?s0 = 0"
    by (simp_all add: PEStep_def event_fetches_def)
  from event_fetches_ensure_fresh[OF fresh(1,2)] fresh(3)
  have "event_fetches ?s1 = 1" by simp
  with run show ?thesis
    using ensure_populated[of s] event_fetches_ensure_fresh[of s] by simp
qed

theorem lazy_population_once_witness:
  "event_fetches (perform_all [AccOutputs, AccGetInput ''x'', AccInputs, AccGetOutputNames]
     (scenario_step [] [])) = 1"
proof -
  have p: "step_inputs (fst (ensure_inputs_outputs_fetched (PEStep 1 ''trainer'' [] (scenario_store [] [])))) \<noteq> [] \<or>
           step_outputs (fst (ensure_inputs_outputs_fetched (PEStep 1 ''trainer'' [] (scenario_store [] [])))) \<noteq> []"
    using scenario_ensure[of "[]" "[]"] by (simp add: scenario_step_def)
  have n: "[AccOutputs, AccGetInput ''x'', AccInputs, AccGetOutputNames] \<noteq> []" by simp
  from lazy_population_once[OF p n, THEN conjunct1] show ?thesis
    by (simp only: scenario_step_def)
qed

subsection \<open>Assigning entries in order\<close>

lemma setitems_Nil [simp]: "setitems [] d = d"
  by (simp add: setitems_def)

lemma setitems_Cons [simp]: "setitems (kv # xs) d = setitems xs (setitem (fst kv) (snd kv) d)"
  by (simp add: setitems_def)

lemma setitems_append: "setitems (xs @ ys) d = setitems ys (setitems xs d)"
  by (simp add: setitems_def)

lemma map_of_setitems: "map_of (setitems xs d) = map_of d ++ map_of (rev xs)"
proof (induction xs arbitrary: d)
  case Nil
  show ?case by simp
next
  case (Cons kv xs)
  show ?case by (cases kv) (simp add: Cons.IH map_of_setitem map_add_def fun_eq_iff split: option.splits)
qed

lemma keys_setitems:
  "map fst (setitems xs d) =
     fold (\<lambda>x acc. if x \<in> set acc then acc else acc @ [x]) (map fst xs) (map fst d)"
proof (induction xs arbitrary: d)
  case Nil
  show ?case by simp
next
  case (Cons kv xs)
  show ?case by (simp add: Cons.IH keys_setitem)
qed

lemma keys_setitems_empty: "map fst (setitems xs []) = first_occurrences (map fst xs)"
  by (simp add: keys_setitems first_occurrences_def)

lemma setitems_distinct:
  "distinct (map fst d @ map fst xs) \<Longrightarrow> setitems xs d = d @ xs"
proof (induction xs arbitrary: d)
  case Nil
  show ?case by simp
next
  case (Cons kv xs)
  have s: "setitem (fst kv) (snd kv) d = d @ [kv]"
    using Cons.prems by (induction d) auto
  have "distinct (map fst (d @ [kv]) @ map fst xs)" using Cons.prems by auto
  from Cons.IH[OF this] s show ?case by simp
qed

lemma first_occurrences_distinct: "distinct xs \<Longrightarrow> first_occurrences xs = xs"
proof -
  have "distinct (acc @ xs) \<Longrightarrow>
        fold (\<lambda>x acc. if x \<in> set acc then acc else acc @ [x]) xs acc = acc @ xs" for acc
    by (induction xs arbitrary: acc) auto
  from this[of "[]"] show "distinct xs \<Longrightarrow> first_occurrences xs = xs"
    by (simp add: first_occurrences_def)
qed

subsection \<open>What the join loop computes\<close>

lemma entries_Nil [simp]: "entries dir tm [] = []"
  by (simp add: entries_def)

lemma entries_append: "entries dir tm (ps @ qs) = entries dir tm ps @ entries dir tm qs"
  by (simp add: entries_def)

lemma join_pair_resolves:
  "resolves tm p \<Longrightarrow>
   snd (join_pair tm p s) = Inr () \<and>
   step_inputs (fst (join_pair tm p s)) = setitems (entries INPUT tm [p]) (step_inputs s) \<and>
   step_outputs (fst (join_pair tm p s)) = setitems (entries OUTPUT tm [p]) (step_outputs s)"
  by (cases p)
     (auto simp: resolves_def join_pair_def Let_def entries_def artifact_name_def
        artifact_view_def INPUT_def OUTPUT_def split: list.splits)

lemma join_pair_fails:
  "\<not> resolves tm p \<Longrightarrow>
   join_pair tm p s =
     (s, Inl (if map_of tm (type_id (snd p)) = None then KeyError_type_id (type_id (snd p))
              else IndexError))"
  by (cases p) (auto simp: resolves_def join_pair_def split: list.splits)

lemma join_loop_resolves:
  "list_all (resolves tm) ps \<Longrightarrow>
   snd (join_loop tm ps s) = Inr () \<and>
   step_inputs (fst (join_loop tm ps s)) = setitems (entries INPUT tm ps) (step_inputs s) \<and>
   step_outputs (fst (join_loop tm ps s)) = setitems (entries OUTPUT tm ps) (step_outputs s)"
proof (induction ps arbitrary: s)
  case Nil
  show ?case by simp
next
  case (Cons p ps)
  then have r: "resolves tm p" and rs: "list_all (resolves tm) ps" by simp_all
  obtain s' q where jp: "join_pair tm p s = (s', q)" by (cases "join_pair tm p s")
  with join_pair_resolves[OF r, of s]
  have q: "q = Inr ()"
    and i: "step_inputs s' = setitems (entries INPUT tm [p]) (step_inputs s)"
    and out: "step_outputs s' = setitems (entries OUTPUT tm [p]) (step_outputs s)"
    by simp_all
  have e: "entries dir tm (p # ps) = entries dir tm [p] @ entries dir tm ps" for dir
    using entries_append[of dir tm "[p]" ps] by simp
  show ?case using Cons.IH[OF rs, of s'] jp q i out
    by (simp add: e setitems_append)
qed

lemma join_loop_ok_iff:
  "snd (join_loop tm ps s) = Inr () \<longleftrightarrow> list_all (resolves tm) ps"
proof (induction ps arbitrary: s)
  case Nil
  show ?case by simp
next
  case (Cons p ps)
  show ?case
  proof (cases "resolves tm p")
    case True
    obtain s' q where jp: "join_pair tm p s = (s', q)" by (cases "join_pair tm p s")
    with join_pair_resolves[OF True, of s] have "q = Inr ()" by simp
    with jp True Cons.IH[of s'] show ?thesis by simp
  next
    case False
    from join_pair_fails[OF False, of s] False show ?thesis by simp
  qed
qed

lemma join_loop_first_failure:
  assumes "list_all (resolves tm) pre" and "\<not> resolves tm p"
  shows "join_loop tm (pre @ p # post) s =
           (fst (join_loop tm pre s),
            Inl (if map_of tm (type_id (snd p)) = None then KeyError_type_id (type_id (snd p))
                 else IndexError))"
proof -
  obtain s' q where jl: "join_loop tm pre s = (s', q)" by (cases "join_loop tm pre s")
  with join_loop_resolves[OF assms(1), of s] have "q = Inr ()" by simp
  with jl show ?thesis
    by (simp add: join_loop_append join_pair_fails[OF assms(2)])
qed

subsection \<open>The mappings a join builds\<close>

lemmas concrete_defs =
  ensure_inputs_outputs_fetched_def PEStep_def table_store_def mk_event_def mk_artifact_def
  called_def artifact_type_mapping_def INPUT_def OUTPUT_def join_pair_def Let_def
  properties_getitem_def PEArtifact_def

lemma join_fresh:
  assumes "step_inputs s = []" "step_outputs s = []"
      and "list_all (resolves (type_names s)) (zip (fetched_events s) (fetched_artifacts s))"
  shows "step_inputs (fst (ensure_inputs_outputs_fetched s)) =
           setitems (entries INPUT (type_names s) (zip (fetched_events s) (fetched_artifacts s))) []"
    and "step_outputs (fst (ensure_inputs_outputs_fetched s)) =
           setitems (entries OUTPUT (type_names s) (zip (fetched_events s) (fetched_artifacts s))) []"
    and "snd (ensure_inputs_outputs_fetched s) = Inr ()"
  using join_loop_resolves[OF assms(3), of "queried s"] assms(1,2)
  by (simp_all add: ensure_fresh queried_fields)

lemma last_entry_wins:
  assumes "xs = pre @ (n, v) # post" and "n \<notin> set (map fst post)"
  shows "map_of (setitems xs []) n = Some v"
proof -
  have "map_of (rev post) n = None" using assms(2) by (simp add: map_of_eq_None_iff)
  then show ?thesis
    by (simp add: map_of_setitems assms(1) map_add_def)
qed

text \<open>
  Claim C3. When the join of a new step goes through, the entries of the inputs
  mapping are those of the INPUT events in the order the store returned the events:
  the keys are the parameter names of the INPUT events in the order of their first
  occurrence, and when the names are distinct the mapping is the list of entries in
  the store's order. When a name occurs more than once, the mapping holds for it the
  artifact view of the last INPUT event with that name. The same holds for the
  outputs mapping and the OUTPUT events.
\<close>

theorem mapping_order_from_store:
  assumes "step_inputs s = []" and "step_outputs s = []"
      and "snd (ensure_inputs_outputs_fetched s) = Inr ()"
      and "ins = entries INPUT (type_names s) (zip (fetched_events s) (fetched_artifacts s))"
      and "outs = entries OUTPUT (type_names s) (zip (fetched_events s) (fetched_artifacts s))"
  shows "map fst (step_inputs (fst (ensure_inputs_outputs_fetched s))) =
           first_occurrences (map fst ins) \<and>
         map fst (step_outputs (fst (ensure_inputs_outputs_fetched s))) =
           first_occurrences (map fst outs) \<and>
         (distinct (map fst ins) \<longrightarrow> step_inputs (fst (ensure_inputs_outputs_fetched s)) = ins) \<and>
         (distinct (map fst outs) \<longrightarrow> step_outputs (fst (ensure_inputs_outputs_fetched s)) = outs) \<and>
         (ins = pre @ (n, v) # post \<and> n \<notin> set (map fst post) \<longrightarrow>
            map_of (step_inputs (fst (ensure_inputs_outputs_fetched s))) n = Some v) \<and>
         (outs = pre @ (n, v) # post \<and> n \<notin> set (map fst post) \<longrightarrow>
            map_of (step_outputs (fst (ensure_inputs_outputs_fetched s))) n = Some v)"
proof -
  have "list_all (resolves (type_names s)) (zip (fetched_events s) (fetched_artifacts s))"
    using assms(3) by (simp add: ensure_fresh[OF assms(1,2)] join_loop_ok_iff)
  from join_fresh(1,2)[OF assms(1,2) this] assms(4,5)
  have i: "step_inputs (fst (ensure_inputs_outputs_fetched s)) = setitems ins []"
    and out: "step_outputs (fst (ensure_inputs_outputs_fetched s)) = setitems outs []"
    by simp_all
  have d: "distinct (map fst xs) \<Longrightarrow> setitems xs [] = xs" for xs :: "(string \<times> pe_artifact) list"
    using setitems_distinct[of "[]" xs] by simp
  show ?thesis
    using d[of ins] d[of outs] last_entry_wins[of ins pre n v post]
      last_entry_wins[of outs pre n v post]
    by (simp add: i out keys_setitems_empty)
qed

lemma repeated_name_ensure:
  "ensure_inputs_outputs_fetched repeated_name_step =
     (repeated_name_step
        \<lparr>step_inputs := [(''b'', PEArtifact 3 ''Dataset'' ''/a/3'' []),
                         (''a'', PEArtifact 1 ''Dataset'' ''/a/1'' [])],
         store_calls := [GetArtifactTypes, GetEventsByExecutionIds [1],
                         GetArtifactsById [2, 1, 3]]\<rparr>, Inr ())"
  by (simp add: repeated_name_step_def concrete_defs)


lemma repeated_name_reads:
  "type_names repeated_name_step = [(1, ''Dataset'')]"
  "zip (fetched_events repeated_name_step) (fetched_artifacts repeated_name_step) =
     [(mk_event 1 INPUT ''b'' 2, mk_artifact 2 1 ''/a/2'' []),
      (mk_event 1 INPUT ''a'' 1, mk_artifact 1 1 ''/a/1'' []),
      (mk_event 1 INPUT ''b'' 3, mk_artifact 3 1 ''/a/3'' [])]"
  by (simp_all add: type_names_def fetched_events_def fetched_artifacts_def
        repeated_name_step_def PEStep_def table_store_def mk_event_def mk_artifact_def
        artifact_type_mapping_def)

theorem mapping_order_from_store_witness:
  "map fst (step_inputs (fst (ensure_inputs_outputs_fetched repeated_name_step))) = [''b'', ''a''] \<and>
   map_of (step_inputs (fst (ensure_inputs_outputs_fetched repeated_name_step))) ''b'' =
     Some (PEArtifact 3 ''Dataset'' ''/a/3'' [])"
proof -
  let ?ins = "[(''b'', PEArtifact 2 ''Dataset'' ''/a/2'' []),
               (''a'', PEArtifact 1 ''Dataset'' ''/a/1'' []),
               (''b'', PEArtifact 3 ''Dataset'' ''/a/3'' [])]"
  have f: "step_inputs repeated_name_step = []" "step_outputs repeated_name_step = []"
    by (simp_all add: repeated_name_step_def PEStep_def)
  have ok: "snd (ensure_inputs_outputs_fetched repeated_name_step) = Inr ()"
    by (simp add: repeated_name_ensure)
  have ins: "?ins = entries INPUT (type_names repeated_name_step)
      (zip (fetched_events repeated_name_step) (fetched_artifacts repeated_name_step))"
    by (simp add: repeated_name_reads entries_def artifact_name_def artifact_view_def
          mk_event_def mk_artifact_def properties_getitem_def)
  have outs: "[] = entries OUTPUT (type_names repeated_name_step)
      (zip (fetched_events repeated_name_step) (fetched_artifacts repeated_name_step))"
    by (simp add: repeated_name_reads entries_def mk_event_def INPUT_def OUTPUT_def)
  have fo: "first_occurrences [''b'', ''a'', ''b''] = [''b'', ''a'']"
    by (simp add: first_occurrences_def)
  from mapping_order_from_store[OF f ok ins outs,
      of "[(''b'', PEArtifact 2 ''Dataset'' ''/a/2'' []), (''a'', PEArtifact 1 ''Dataset'' ''/a/1'' [])]"
         "''b''" "PEArtifact 3 ''Dataset'' ''/a/3'' []" "[]"]
  show ?thesis by (simp add: fo)
qed

subsection \<open>A join that fails\<close>

lemma unknown_type_reads:
  "type_names unknown_type_step = [(1, ''Dataset'')]"
  "zip (fetched_events unknown_type_step) (fetched_artifacts unknown_type_step) =
     [(mk_event 1 INPUT ''a'' 10, mk_artifact 10 1 ''/a/10'' []),
      (mk_event 1 INPUT ''b'' 20, mk_artifact 20 9 ''/a/20'' [])]"
  by (simp_all add: type_names_def fetched_events_def fetched_artifacts_def
        unknown_type_step_def PEStep_def table_store_def mk_event_def mk_artifact_def
        artifact_type_mapping_def)

text \<open>
  Claim C7, as stated, fails: the loop assigns to the mappings pair by pair and
  nothing undoes the assignments when a later pair raises. With the second artifact
  of an unknown type the join raises the KeyError, and the inputs mapping, empty
  before, holds the entry of the first pair; the next access finds it non-empty and
  returns it without a new join.
\<close>

theorem join_leaves_partial_mapping_counterexample:
  "snd (ensure_inputs_outputs_fetched unknown_type_step) = Inl (KeyError_type_id 9) \<and>
   step_inputs unknown_type_step = [] \<and>
   step_inputs (fst (ensure_inputs_outputs_fetched unknown_type_step)) =
     [(''a'', PEArtifact 10 ''Dataset'' ''/a/10'' [])] \<and>
   snd (inputs (fst (ensure_inputs_outputs_fetched unknown_type_step))) =
     Inr [PEArtifact 10 ''Dataset'' ''/a/10'' []]"
  by (simp add: unknown_type_step_def inputs_def concrete_defs)

text \<open>
  Claim C7, amended. The join is fail-fast: at the first pair whose artifact's type id
  is not in the type dictionary it raises the KeyError for that type id, and no later
  pair is processed. The mappings are not rolled back: they hold the entries of the
  pairs before the failing one.
\<close>

theorem join_fail_fast:
  assumes "step_inputs s = []" and "step_outputs s = []"
      and "zip (fetched_events s) (fetched_artifacts s) = pre @ p # post"
      and "list_all (resolves (type_names s)) pre"
      and "map_of (type_names s) (type_id (snd p)) = None"
  shows "snd (ensure_inputs_outputs_fetched s) = Inl (KeyError_type_id (type_id (snd p))) \<and>
         step_inputs (fst (ensure_inputs_outputs_fetched s)) =
           setitems (entries INPUT (type_names s) pre) [] \<and>
         step_outputs (fst (ensure_inputs_outputs_fetched s)) =
           setitems (entries OUTPUT (type_names s) pre) []"
proof -
  have nr: "\<not> resolves (type_names s) p" using assms(5) by (simp add: resolves_def)
  from join_loop_first_failure[OF assms(4) nr, of post "queried s"]
    join_loop_resolves[OF assms(4), of "queried s"] assms(1,2,5)
  show ?thesis
    by (simp add: ensure_fresh assms(3) queried_fields)
qed

theorem join_fail_fast_witness:
  "snd (ensure_inputs_outputs_fetched unknown_type_step) = Inl (KeyError_type_id 9) \<and>
   step_inputs (fst (ensure_inputs_outputs_fetched unknown_type_step)) =
     [(''a'', PEArtifact 10 ''Dataset'' ''/a/10'' [])] \<and>
   step_outputs (fst (ensure_inputs_outputs_fetched unknown_type_step)) = []"
proof -
  have f: "step_inputs unknown_type_step = []" "step_outputs unknown_type_step = []"
    by (simp_all add: unknown_type_step_def PEStep_def)
  have z: "zip (fetched_events unknown_type_step) (fetched_artifacts unknown_type_step) =
      [(mk_event 1 INPUT ''a'' 10, mk_artifact 10 1 ''/a/10'' [])] @
      (mk_event 1 INPUT ''b'' 20, mk_artifact 20 9 ''/a/20'' []) # []"
    by (simp add: unknown_type_reads)
  have r: "list_all (resolves (type_names unknown_type_step))
      [(mk_event 1 INPUT ''a'' 10, mk_artifact 10 1 ''/a/10'' [])]"
    by (simp add: unknown_type_reads resolves_def mk_event_def mk_artifact_def)
  have n: "map_of (type_names unknown_type_step)
      (type_id (snd (mk_event 1 INPUT ''b'' 20, mk_artifact 20 9 ''/a/20'' []))) = None"
    by (simp add: unknown_type_reads mk_artifact_def)
  from join_fail_fast[OF f z r n] show ?thesis
    by (simp add: unknown_type_reads entries_def artifact_name_def artifact_view_def
          mk_event_def mk_artifact_def properties_getitem_def INPUT_def OUTPUT_def)
qed

subsection \<open>Pairing by position\<close>

text \<open>
  Claim C9. The join pairs the events and the artifacts by position, up to the length
  \<open>n\<close> of the shorter list: it is the loop over the first \<open>n\<close> events zipped with the
  first \<open>n\<close> artifacts. Events and artifacts beyond \<open>n\<close> play no part. A difference in
  length raises nothing: the join goes through exactly when each of the \<open>n\<close> pairs
  resolves, and then the mappings hold the entries of these pairs only.
\<close>

theorem positional_pairing:
  assumes "step_inputs s = []" and "step_outputs s = []"
      and "n = min (length (fetched_events s)) (length (fetched_artifacts s))"
      and "ps = zip (take n (fetched_events s)) (take n (fetched_artifacts s))"
  shows "ensure_inputs_outputs_fetched s = join_loop (type_names s) ps (queried s) \<and>
         (snd (ensure_inputs_outputs_fetched s) = Inr () \<longleftrightarrow>
            list_all (resolves (type_names s)) ps) \<and>
         (list_all (resolves (type_names s)) ps \<longrightarrow>
            step_inputs (fst (ensure_inputs_outputs_fetched s)) =
              setitems (entries INPUT (type_names s) ps) [] \<and>
            step_outputs (fst (ensure_inputs_outputs_fetched s)) =
              setitems (entries OUTPUT (type_names s) ps) [])"
proof -
  have z: "zip (fetched_events s) (fetched_artifacts s) = ps"
    unfolding assms(3,4) by (simp add: zip_eq_conv take_zip[symmetric] min_def)
  show ?thesis
    using join_fresh(1,2)[OF assms(1,2)]
    by (simp add: ensure_fresh[OF assms(1,2)] z join_loop_ok_iff)
qed

lemma missing_artifact_reads:
  "fetched_events missing_artifact_step =
     [mk_event 1 INPUT ''a'' 10, mk_event 1 INPUT ''b'' 20]"
  "fetched_artifacts missing_artifact_step = [mk_artifact 10 1 ''/a/10'' []]"
  "type_names missing_artifact_step = [(1, ''Dataset'')]"
  by (simp_all add: fetched_artifacts_def fetched_events_def type_names_def
        missing_artifact_step_def PEStep_def table_store_def mk_event_def mk_artifact_def
        artifact_type_mapping_def)

lemma extra_artifact_reads:
  "fetched_events extra_artifact_step = [mk_event 1 INPUT ''a'' 10]"
  "fetched_artifacts extra_artifact_step =
     [mk_artifact 10 1 ''/a/10'' [], mk_artifact 10 9 ''/a/10-copy'' []]"
  "type_names extra_artifact_step = [(1, ''Dataset'')]"
  by (simp_all add: fetched_artifacts_def fetched_events_def type_names_def
        extra_artifact_step_def PEStep_def table_store_def mk_event_def mk_artifact_def
        artifact_type_mapping_def)

lemma first_pair_entries:
  "list_all (resolves [(1, ''Dataset'')])
     [(mk_event 1 INPUT ''a'' 10, mk_artifact 10 1 ''/a/10'' [])]"
  "setitems (entries INPUT [(1, ''Dataset'')]
     [(mk_event 1 INPUT ''a'' 10, mk_artifact 10 1 ''/a/10'' [])]) [] =
     [(''a'', PEArtifact 10 ''Dataset'' ''/a/10'' [])]"
  by (simp_all add: resolves_def entries_def artifact_name_def artifact_view_def
        mk_event_def mk_artifact_def properties_getitem_def)

theorem positional_pairing_witness:
  "length (fetched_events missing_artifact_step) = 2 \<and>
   length (fetched_artifacts missing_artifact_step) = 1 \<and>
   snd (ensure_inputs_outputs_fetched missing_artifact_step) = Inr () \<and>
   step_inputs (fst (ensure_inputs_outputs_fetched missing_artifact_step)) =
     [(''a'', PEArtifact 10 ''Dataset'' ''/a/10'' [])] \<and>
   length (fetched_events extra_artifact_step) = 1 \<and>
   length (fetched_artifacts extra_artifact_step) = 2 \<and>
   snd (ensure_inputs_outputs_fetched extra_artifact_step) = Inr () \<and>
   step_inputs (fst (ensure_inputs_outputs_fetched extra_artifact_step)) =
     [(''a'', PEArtifact 10 ''Dataset'' ''/a/10'' [])]"
proof -
  let ?ps = "[(mk_event 1 INPUT ''a'' 10, mk_artifact 10 1 ''/a/10'' [])]"
  have fm: "step_inputs missing_artifact_step = []" "step_outputs missing_artifact_step = []"
    by (simp_all add: missing_artifact_step_def PEStep_def)
  have nm: "(1::nat) = min (length (fetched_events missing_artifact_step))
      (length (fetched_artifacts missing_artifact_step))"
    by (simp add: missing_artifact_reads)
  have pm: "?ps = zip (take 1 (fetched_events missing_artifact_step))
      (take 1 (fetched_artifacts missing_artifact_step))"
    by (simp add: missing_artifact_reads)
  have rm: "list_all (resolves (type_names missing_artifact_step)) ?ps"
    using first_pair_entries(1) by (simp add: missing_artifact_reads)
  from positional_pairing[OF fm nm pm] rm
  have m: "snd (ensure_inputs_outputs_fetched missing_artifact_step) = Inr ()"
      "step_inputs (fst (ensure_inputs_outputs_fetched missing_artifact_step)) =
         setitems (entries INPUT (type_names missing_artifact_step) ?ps) []"
    by blast+
  have fe: "step_inputs extra_artifact_step = []" "step_outputs extra_artifact_step = []"
    by (simp_all add: extra_artifact_step_def PEStep_def)
  have ne: "(1::nat) = min (length (fetched_events extra_artifact_step))
      (length (fetched_artifacts extra_artifact_step))"
    by (simp add: extra_artifact_reads)
  have pe: "?ps = zip (take 1 (fetched_events extra_artifact_step))
      (take 1 (fetched_artifacts extra_artifact_step))"
    by (simp add: extra_artifact_reads)
  have re: "list_all (resolves (type_names extra_artifact_step)) ?ps"
    using first_pair_entries(1) by (simp add: extra_artifact_reads)
  from positional_pairing[OF fe ne pe] re
  have e: "snd (ensure_inputs_outputs_fetched extra_artifact_step) = Inr ()"
      "step_inputs (fst (ensure_inputs_outputs_fetched extra_artifact_step)) =
         setitems (entries INPUT (type_names extra_artifact_step) ?ps) []"
    by blast+
  from m e show ?thesis
    by (simp add: missing_artifact_reads extra_artifact_reads first_pair_entries)
qed

subsection \<open>Order of the signature\<close>

text \<open>
  Claim C8. The docstrings of \<open>inputs\<close> and \<open>outputs\<close> promise the order of the step
  function's signature. The join never sees the signature: the order is that of the
  store's events. For the step function \<^verbatim>\<open>def trainer(a, b)\<close> whose events the
  store returns as \<open>b\<close>, \<open>a\<close>, the inputs come out as \<open>b\<close>, \<open>a\<close>.
\<close>

theorem inputs_follow_store_order:
  "snd (get_input_names swapped_step) = Inr [''b'', ''a''] \<and>
   snd (inputs swapped_step) =
     Inr [PEArtifact 20 ''Dataset'' ''/a/20'' [], PEArtifact 10 ''Dataset'' ''/a/10'' []]"
  by (simp add: swapped_step_def get_input_names_def inputs_def concrete_defs)

end
